theory Spec2Isabelle
  imports Complex_Main "HOL-Library.Product_Lexorder"
begin

section \<open>Nepali compound interest calculator: the model of \<open>page.tsx\<close>\<close>

text \<open>
  The calculator of \<open>src/app/page.tsx\<close> is embedded function by function.

  Numbers. A BS date component is an integer (\<open>int\<close>). An amount or a rate is a
  JavaScript \<open>number\<close>, an IEEE double in the source; here it is an exact rational
  (\<open>rat\<close>), so the definitions compute the arithmetic the source writes down without
  the rounding error of binary floating point. \<open>NaN\<close>, where the source tests for it, is
  \<open>None\<close>.

  The source and the exact arithmetic part in three places. Unrounded amounts differ in
  their last digits. At the final rounding, an unrounded amount at a half cent (or within
  floating-point error of one) can go to either neighbouring cent in the source: the
  principal 1.005 is returned as 1, where exact rounding gives 1.01. And beyond the range
  or the precision of a double the source has \<open>Infinity\<close>, or cannot tell the cents
  apart (from about \<open>10^13\<close> on), or loses an interest that is tiny beside its principal.
  The general statements about returned amounts below are therefore phrased to hold for
  the source too: a whole number of cents within half a cent (with a margin of the relative
  precision of a double), not the side to which a half cent goes; and an explicit bound on
  the amounts where range or precision decides.

  Errors. \<open>throw new Error(msg)\<close> is the value \<open>Inl (Error msg)\<close>; a normal return is
  \<open>Inr\<close>.

  The \<open>details\<close> string of a breakdown entry is built with \<open>toFixed(2)\<close> and with the
  conversion of floating-point numbers to text; it is display text only and is left out of
  the record \<open>BreakdownEntry\<close>.
\<close>

subsection \<open>Types and interfaces\<close>

record CalculatorInputs =
  principal :: string
  interestRate :: string
  startDate :: string
  endDate :: string

record BSDate =
  year :: int
  month :: int
  day :: int

record Duration =
  years :: int
  months :: int
  days :: int

record BreakdownEntry =
  period :: string
  startingPrincipal :: rat
  interest :: rat
  endingAmount :: rat

record CalculationResult =
  finalAmount :: rat
  totalInterest :: rat
  timeDuration :: Duration
  breakdown :: "BreakdownEntry list"

datatype exn = Error string

text \<open>
  The part of the component's state that \<open>handleCalculate\<close> reads and writes: the
  \<open>useState\<close> cells \<open>inputs\<close>, \<open>result\<close> and \<open>error\<close>. (\<open>savedCalculations\<close>,
  \<open>currentView\<close> and \<open>mobileMenuOpen\<close> are not touched by it.)
\<close>

record AppState =
  inputs :: CalculatorInputs
  result :: "CalculationResult option"
  error :: string

subsection \<open>Text and numbers\<close>

definition isDigit :: "char \<Rightarrow> bool" where
  "isDigit c = (c \<in> set ''0123456789'')"

definition digitVal :: "char \<Rightarrow> int" where
  "digitVal c = int (of_char c) - 48"

text \<open>\<open>s.split(sep)\<close> for a separator of one character: never the empty list.\<close>

fun split_on :: "char \<Rightarrow> string \<Rightarrow> string list" where
  "split_on sep [] = [[]]"
| "split_on sep (c # cs) =
     (if c = sep then [] # split_on sep cs
      else (c # hd (split_on sep cs)) # tl (split_on sep cs))"

text \<open>
  \<open>Number(piece)\<close> on a piece of a date string. A non-empty string of decimal digits is
  its decimal value. Every other piece is outside the model (\<open>None\<close>): JavaScript gives
  \<open>NaN\<close> for most of them and a number for a few (the empty string, signs, fractions,
  exponents, hexadecimal), and no such piece reaches \<open>parseBSDate\<close> in the program,
  because \<open>handleCalculate\<close> tests \<open>datePattern\<close> first.
\<close>

definition Number_digits :: "string \<Rightarrow> int option" where
  "Number_digits s =
     (if s \<noteq> [] \<and> list_all isDigit s
      then Some (foldl (\<lambda>acc c. 10 * acc + digitVal c) 0 s)
      else None)"

text \<open>Decimal text of an integer, as a template literal prints it.\<close>

definition digitChar :: "nat \<Rightarrow> char" where
  "digitChar n = char_of (48 + n)"

fun showNat :: "nat \<Rightarrow> string" where
  "showNat n = (if n < 10 then [digitChar n] else showNat (n div 10) @ [digitChar (n mod 10)])"

definition toString :: "int \<Rightarrow> string" where
  "toString i = (if i < 0 then CHR ''-'' # showNat (nat (- i)) else showNat (nat i))"

text \<open>\<open>pieces.join(' ')\<close>.\<close>

fun join_space :: "string list \<Rightarrow> string" where
  "join_space [] = []"
| "join_space [s] = s"
| "join_space (s # t # ts) = s @ '' '' @ join_space (t # ts)"

text \<open>\<open>Math.round\<close>: the nearest integer, a half rounded up.\<close>

definition Math_round :: "rat \<Rightarrow> int" where
  "Math_round x = \<lfloor>x + 1 / 2\<rfloor>"

text \<open>
  \<open>Math.round(x * 100) / 100\<close>, as lines 162 and 163 write it, in exact arithmetic: a
  half cent goes up. In the source the double nearest to \<open>x * 100\<close> decides, so that at
  a half cent the result can be the cent below (1.005 gives 1, since the product is
  100.49999999999999).
\<close>

definition round2 :: "rat \<Rightarrow> rat" where
  "round2 x = of_int (Math_round (x * 100)) / 100"

subsection \<open>BS date utilities\<close>

definition BS_DAYS_PER_MONTH :: int where
  "BS_DAYS_PER_MONTH = 30"

definition BS_MONTHS_PER_YEAR :: int where
  "BS_MONTHS_PER_YEAR = 12"

text \<open>
  \<open>parseBSDate\<close>: split at the hyphens, convert each piece, take the first three.
\<close>

definition parseBSDate :: "string \<Rightarrow> BSDate option" where
  "parseBSDate dateString =
     (case map Number_digits (split_on CHR ''-'' dateString) of
        Some y # Some m # Some d # _ \<Rightarrow> Some \<lparr>year = y, month = m, day = d\<rparr>
      | _ \<Rightarrow> None)"

text \<open>
  Lines 62 to 84 of \<open>calculateBSDateDifference\<close>, on the two parsed dates: the ordering
  test, the component-wise subtraction and the two borrows.
\<close>

definition dateDifference :: "BSDate \<Rightarrow> BSDate \<Rightarrow> exn + Duration" where
  "dateDifference start en =
     (if year en < year start \<or>
         (year en = year start \<and> month en < month start) \<or>
         (year en = year start \<and> month en = month start \<and> day en < day start)
      then Inl (Error ''End date must be after start date'')
      else
        let years0 = year en - year start;
            months0 = month en - month start;
            days0 = day en - day start;
            months1 = (if days0 < 0 then months0 - 1 else months0);
            days1 = (if days0 < 0 then days0 + BS_DAYS_PER_MONTH else days0);
            years1 = (if months1 < 0 then years0 - 1 else years0);
            months2 = (if months1 < 0 then months1 + BS_MONTHS_PER_YEAR else months1)
        in Inr \<lparr>years = years1, months = months2, days = days1\<rparr>)"

text \<open>
  \<open>calculateBSDateDifference\<close>. \<open>None\<close> only when a date string is outside the model
  of \<open>Number_digits\<close>.
\<close>

definition calculateBSDateDifference :: "string \<Rightarrow> string \<Rightarrow> (exn + Duration) option" where
  "calculateBSDateDifference startDateStr endDateStr =
     (case parseBSDate startDateStr of
        None \<Rightarrow> None
      | Some start \<Rightarrow>
          (case parseBSDate endDateStr of
             None \<Rightarrow> None
           | Some en \<Rightarrow> Some (dateDifference start en)))"

subsection \<open>Interest calculation\<close>

definition isMonthlyRate :: "rat \<Rightarrow> bool" where
  "isMonthlyRate rate = (rate < 10)"

definition monthlyRate :: "rat \<Rightarrow> rat" where
  "monthlyRate rate = (if isMonthlyRate rate then rate else rate / 12)"

definition annualRate :: "rat \<Rightarrow> rat" where
  "annualRate rate = (if isMonthlyRate rate then rate * 12 else rate)"

text \<open>
  The entry pushed by one round of the loop of lines 109 to 122. The sum is exact: in the
  source an interest below half a unit in the last place of the principal leaves the
  principal as it is, and an amount beyond \<open>Number.MAX_VALUE\<close> is \<open>Infinity\<close>.
\<close>

definition yearEntry :: "int \<Rightarrow> rat \<Rightarrow> rat \<Rightarrow> BreakdownEntry" where
  "yearEntry yr currentPrincipal aRate =
     (let yearlyInterest = (currentPrincipal * aRate) / 100;
          newAmount = currentPrincipal + yearlyInterest
      in \<lparr>period = ''Year '' @ toString yr,
          startingPrincipal = currentPrincipal,
          interest = yearlyInterest,
          endingAmount = newAmount\<rparr>)"

text \<open>
  The loop \<open>for (let year = 1; year <= dateDiff.years; year++)\<close>, from the counter
  \<open>yr\<close> on: it returns the breakdown and the current principal.
\<close>

function yearLoop ::
  "int \<Rightarrow> int \<Rightarrow> rat \<Rightarrow> rat \<Rightarrow> BreakdownEntry list \<Rightarrow> BreakdownEntry list \<times> rat" where
  "yearLoop yr n aRate currentPrincipal bd =
     (if yr \<le> n
      then yearLoop (yr + 1) n aRate
             (endingAmount (yearEntry yr currentPrincipal aRate))
             (bd @ [yearEntry yr currentPrincipal aRate])
      else (bd, currentPrincipal))"
  by pat_completeness auto
termination
  by (relation "measure (\<lambda>(yr, n, aRate, currentPrincipal, bd). nat (n + 1 - yr))") auto

text \<open>The entry pushed by the block of lines 124 to 156.\<close>

definition partialEntry :: "rat \<Rightarrow> rat \<Rightarrow> Duration \<Rightarrow> BreakdownEntry" where
  "partialEntry currentPrincipal mRate dateDiff =
     (let monthlyInterestAmount = (currentPrincipal * mRate) / 100;
          monthsInterest = monthlyInterestAmount * of_int (months dateDiff);
          dailyInterestAmount = monthlyInterestAmount / of_int BS_DAYS_PER_MONTH;
          daysInterest = dailyInterestAmount * of_int (days dateDiff);
          partialInterest = monthsInterest + daysInterest;
          newAmount = currentPrincipal + partialInterest;
          periodLabel =
            (if months dateDiff > 0
             then [toString (months dateDiff) @ '' month'' @
                   (if months dateDiff > 1 then ''s'' else '''')]
             else []) @
            (if days dateDiff > 0
             then [toString (days dateDiff) @ '' day'' @
                   (if days dateDiff > 1 then ''s'' else '''')]
             else [])
      in \<lparr>period = join_space periodLabel,
          startingPrincipal = currentPrincipal,
          interest = partialInterest,
          endingAmount = newAmount\<rparr>)"

text \<open>
  Lines 102 to 158: the breakdown and the unrounded final amount (the local constant
  \<open>finalAmount\<close> of line 158) for a date difference.
\<close>

definition accrue :: "rat \<Rightarrow> rat \<Rightarrow> Duration \<Rightarrow> BreakdownEntry list \<times> rat" where
  "accrue p rate dateDiff =
     (let afterYears = yearLoop 1 (years dateDiff) (annualRate rate) p [];
          breakdown1 = fst afterYears;
          currentPrincipal1 = snd afterYears
      in if months dateDiff > 0 \<or> days dateDiff > 0
         then (breakdown1 @ [partialEntry currentPrincipal1 (monthlyRate rate) dateDiff],
               endingAmount (partialEntry currentPrincipal1 (monthlyRate rate) dateDiff))
         else (breakdown1, currentPrincipal1))"

text \<open>
  Lines 158 to 166: the returned object. Both returned amounts are rounded from the exact
  unrounded ones; see \<open>round2\<close> for the half cent.
\<close>

definition makeResult :: "rat \<Rightarrow> rat \<Rightarrow> Duration \<Rightarrow> CalculationResult" where
  "makeResult p rate dateDiff =
     (let finalAmount0 = snd (accrue p rate dateDiff);
          totalInterest0 = finalAmount0 - p
      in \<lparr>finalAmount = round2 finalAmount0,
          totalInterest = round2 totalInterest0,
          timeDuration = dateDiff,
          breakdown = fst (accrue p rate dateDiff)\<rparr>)"

text \<open>
  \<open>calculateNepaliInterest\<close>: the two guards of lines 97 and 98, the date difference
  (whose error propagates), then the accrual.
\<close>

definition calculateNepaliInterest ::
  "rat \<Rightarrow> rat \<Rightarrow> string \<Rightarrow> string \<Rightarrow> (exn + CalculationResult) option" where
  "calculateNepaliInterest p rate startDateStr endDateStr =
     (if p \<le> 0 then Some (Inl (Error ''Principal must be greater than 0''))
      else if rate < 0 then Some (Inl (Error ''Interest rate cannot be negative''))
      else
        (case calculateBSDateDifference startDateStr endDateStr of
           None \<Rightarrow> None
         | Some (Inl err) \<Rightarrow> Some (Inl err)
         | Some (Inr dateDiff) \<Rightarrow> Some (Inr (makeResult p rate dateDiff))))"

subsection \<open>The component's handler\<close>

text \<open>The regular expression \<open>/^\d{4}-\d{2}-\d{2}$/\<close>.\<close>

fun datePattern_test :: "string \<Rightarrow> bool" where
  "datePattern_test [y1, y2, y3, y4, h1, m1, m2, h2, d1, d2] =
     (isDigit y1 \<and> isDigit y2 \<and> isDigit y3 \<and> isDigit y4 \<and> h1 = CHR ''-'' \<and>
      isDigit m1 \<and> isDigit m2 \<and> h2 = CHR ''-'' \<and> isDigit d1 \<and> isDigit d2)"
| "datePattern_test _ = False"

text \<open>
  The body of the \<open>try\<close> block of \<open>handleCalculate\<close> (lines 207 to 227): what it
  throws, or the result it hands to \<open>setResult\<close>. \<open>parseFloat\<close> is the JavaScript
  built-in, taken as a parameter: \<open>None\<close> is \<open>NaN\<close>, \<open>Some x\<close> a finite number.
\<close>

definition tryCalculate ::
  "(string \<Rightarrow> rat option) \<Rightarrow> CalculatorInputs \<Rightarrow> (exn + CalculationResult) option" where
  "tryCalculate parseFloat inp =
     (case parseFloat (principal inp) of
        None \<Rightarrow> Some (Inl (Error ''Please enter a valid principal amount greater than 0''))
      | Some p \<Rightarrow>
          if p \<le> 0
          then Some (Inl (Error ''Please enter a valid principal amount greater than 0''))
          else
            (case parseFloat (interestRate inp) of
               None \<Rightarrow> Some (Inl (Error ''Please enter a valid interest rate (0 or greater)''))
             | Some rate \<Rightarrow>
                 if rate < 0
                 then Some (Inl (Error ''Please enter a valid interest rate (0 or greater)''))
                 else if \<not> datePattern_test (startDate inp) \<or> \<not> datePattern_test (endDate inp)
                 then Some (Inl (Error ''Please enter dates in YYYY-MM-DD format (BS calendar)''))
                 else calculateNepaliInterest p rate (startDate inp) (endDate inp)))"

text \<open>
  \<open>handleCalculate\<close>: on a normal return the error is \<open>''\<close> and the result is stored; the
  \<open>catch\<close> block stores the message and calls \<open>setResult(null)\<close>.
\<close>

definition handleCalculate :: "(string \<Rightarrow> rat option) \<Rightarrow> AppState \<Rightarrow> AppState option" where
  "handleCalculate parseFloat st =
     (case tryCalculate parseFloat (inputs st) of
        None \<Rightarrow> None
      | Some (Inr calculationResult) \<Rightarrow>
          Some (st\<lparr>error := '''', result := Some calculationResult\<rparr>)
      | Some (Inl (Error msg)) \<Rightarrow>
          Some (st\<lparr>error := msg, result := None\<rparr>))"

text \<open>
  \<open>handleInputChange\<close>: one input field is replaced and the error is cleared; the
  result stays.
\<close>

datatype field = Principal | InterestRate | StartDate | EndDate

fun setField :: "field \<Rightarrow> string \<Rightarrow> CalculatorInputs \<Rightarrow> CalculatorInputs" where
  "setField Principal v prev = prev\<lparr>principal := v\<rparr>"
| "setField InterestRate v prev = prev\<lparr>interestRate := v\<rparr>"
| "setField StartDate v prev = prev\<lparr>startDate := v\<rparr>"
| "setField EndDate v prev = prev\<lparr>endDate := v\<rparr>"

definition handleInputChange :: "field \<Rightarrow> string \<Rightarrow> AppState \<Rightarrow> AppState" where
  "handleInputChange fld v st = st\<lparr>inputs := setField fld v (inputs st), error := ''''\<rparr>"

subsection \<open>Notions used to state the properties\<close>

text \<open>
  \<open>precedes a b\<close>: the date \<open>a\<close> comes strictly before \<open>b\<close> in the lexicographic
  order of (year, month, day).
\<close>

definition precedes :: "BSDate \<Rightarrow> BSDate \<Rightarrow> bool" where
  "precedes a b = ((year a, month a, day a) < (year b, month b, day b))"

text \<open>
  The rows that \<open>k\<close> rounds of the yearly loop push, starting at counter \<open>yr\<close> with
  principal \<open>cur\<close>, and the principal after \<open>k\<close> years of compounding.
\<close>

fun yearRows :: "int \<Rightarrow> nat \<Rightarrow> rat \<Rightarrow> rat \<Rightarrow> BreakdownEntry list" where
  "yearRows yr 0 aRate cur = []"
| "yearRows yr (Suc k) aRate cur =
     yearEntry yr cur aRate # yearRows (yr + 1) k aRate (endingAmount (yearEntry yr cur aRate))"

definition compound :: "rat \<Rightarrow> rat \<Rightarrow> nat \<Rightarrow> rat" where
  "compound aRate cur k = cur * (1 + aRate / 100) ^ k"

text \<open>
  A stand-in for \<open>parseFloat\<close> in the worked examples: on a non-empty string of decimal
  digits it returns the number the built-in returns, and the examples feed it nothing else.
\<close>

definition parseFloat_digits :: "string \<Rightarrow> rat option" where
  "parseFloat_digits s = map_option of_int (Number_digits s)"

text \<open>
  The component's initial state (lines 174 to 182), and the state it shows after one
  click on the calculate button.
\<close>

definition defaultInputs :: CalculatorInputs where
  "defaultInputs =
     \<lparr>principal = ''100000'', interestRate = ''3'',
      startDate = ''2078-01-01'', endDate = ''2080-04-04''\<rparr>"

definition initialState :: AppState where
  "initialState = \<lparr>inputs = defaultInputs, result = None, error = ''''\<rparr>"

definition shownState :: AppState where
  "shownState =
     \<lparr>inputs = defaultInputs,
      result = Some (makeResult 100000 3 \<lparr>years = 2, months = 3, days = 3\<rparr>),
      error = ''''\<rparr>"

text \<open>
  What a call returns: \<open>None\<close> when it throws (or is outside the model).
\<close>

definition returned :: "(exn + 'a) option \<Rightarrow> 'a option" where
  "returned r = (case r of Some (Inr x) \<Rightarrow> Some x | _ \<Rightarrow> None)"

text \<open>
  \<open>Number.MAX_VALUE\<close>, the largest finite double: a product beyond it is \<open>Infinity\<close> in
  the source, which the rational numbers do not have.
\<close>

definition MAX_VALUE :: rat where
  "MAX_VALUE = (2 ^ 53 - 1) * 2 ^ 971"

section \<open>Properties\<close>

declare yearLoop.simps [simp del]

subsection \<open>Dates\<close>

lemma isDigit_not_hyphen: "isDigit c \<Longrightarrow> c \<noteq> CHR ''-''"
  by (auto simp: isDigit_def)

text \<open>Every string that \<open>datePattern\<close> accepts is parsed, into three numbers.\<close>

lemma datePattern_parse:
  assumes "datePattern_test s"
  shows "\<exists>d. parseBSDate s = Some d"
proof -
  from assms obtain y1 y2 y3 y4 m1 m2 d1 d2 where
    s: "s = [y1, y2, y3, y4, CHR ''-'', m1, m2, CHR ''-'', d1, d2]"
    and dg: "isDigit y1" "isDigit y2" "isDigit y3" "isDigit y4"
            "isDigit m1" "isDigit m2" "isDigit d1" "isDigit d2"
    by (auto elim!: datePattern_test.elims(2))
  have sp: "split_on CHR ''-'' s = [[y1, y2, y3, y4], [m1, m2], [d1, d2]]"
    using dg by (simp add: s isDigit_not_hyphen)
  show ?thesis
    using dg by (simp add: parseBSDate_def sp Number_digits_def)
qed

lemma dateDifference_Inl_iff:
  "dateDifference start en = Inl x \<longleftrightarrow>
     x = Error ''End date must be after start date'' \<and> precedes en start"
  by (auto simp: dateDifference_def precedes_def Let_def less_prod_def')

lemma dateDifference_Inr:
  "\<not> precedes en start \<Longrightarrow> \<exists>d. dateDifference start en = Inr d"
  by (auto simp: dateDifference_def precedes_def Let_def less_prod_def')

lemma dateDifference_years_nonneg:
  "dateDifference start en = Inr d \<Longrightarrow> 0 \<le> years d"
  by (auto simp: dateDifference_def Let_def BS_DAYS_PER_MONTH_def BS_MONTHS_PER_YEAR_def
      split: if_splits)

lemma dateDifference_same: "dateDifference d d = Inr \<lparr>years = 0, months = 0, days = 0\<rparr>"
  by (simp add: dateDifference_def Let_def)

lemma calculateBSDateDifference_parsed:
  "parseBSDate s = Some sd \<Longrightarrow> parseBSDate e = Some ed \<Longrightarrow>
   calculateBSDateDifference s e = Some (dateDifference sd ed)"
  by (simp add: calculateBSDateDifference_def)

subsection \<open>The yearly loop\<close>

lemma endingAmount_yearEntry:
  "endingAmount (yearEntry yr cur aRate) = cur * (1 + aRate / 100)"
  by (simp add: yearEntry_def Let_def algebra_simps)

lemma yearLoop_eq:
  "yearLoop yr n aRate cur bd =
     (bd @ yearRows yr (nat (n + 1 - yr)) aRate cur, compound aRate cur (nat (n + 1 - yr)))"
proof (induction yr n aRate cur bd rule: yearLoop.induct)
  case (1 yr n aRate cur bd)
  show ?case
  proof (cases "yr \<le> n")
    case True
    then have k: "nat (n + 1 - yr) = Suc (nat (n + 1 - (yr + 1)))" by simp
    show ?thesis
      using True "1.IH"[OF True]
      by (subst yearLoop.simps)
         (simp add: k endingAmount_yearEntry compound_def del: of_nat_Suc)
  next
    case False
    then show ?thesis
      by (subst yearLoop.simps) (simp add: compound_def)
  qed
qed

lemma length_yearRows: "length (yearRows yr k aRate cur) = k"
  by (induction k arbitrary: yr cur) simp_all

lemma yearRows_nth:
  "i < k \<Longrightarrow> yearRows yr k aRate cur ! i = yearEntry (yr + int i) (compound aRate cur i) aRate"
proof (induction k arbitrary: yr cur i)
  case 0
  then show ?case by simp
next
  case (Suc k)
  show ?case
  proof (cases i)
    case 0
    then show ?thesis by (simp add: compound_def)
  next
    case (Suc j)
    with Suc.prems have "j < k" by simp
    from Suc.IH[OF this] show ?thesis
      by (simp add: Suc endingAmount_yearEntry compound_def algebra_simps)
  qed
qed

lemma accrue_eq:
  "accrue p rate d =
     (if months d > 0 \<or> days d > 0
      then (yearRows 1 (nat (years d)) (annualRate rate) p @
              [partialEntry (compound (annualRate rate) p (nat (years d))) (monthlyRate rate) d],
            endingAmount
              (partialEntry (compound (annualRate rate) p (nat (years d))) (monthlyRate rate) d))
      else (yearRows 1 (nat (years d)) (annualRate rate) p,
            compound (annualRate rate) p (nat (years d))))"
  by (simp add: accrue_def yearLoop_eq Let_def)

subsection \<open>The ledger\<close>

lemma yearEntry_fields:
  "period (yearEntry yr cur aRate) = ''Year '' @ toString yr"
  "startingPrincipal (yearEntry yr cur aRate) = cur"
  "interest (yearEntry yr cur aRate) = cur * aRate / 100"
  by (simp_all add: yearEntry_def Let_def)

lemma partialEntry_fields:
  "startingPrincipal (partialEntry cur mRate d) = cur"
  "interest (partialEntry cur mRate d) =
     cur * mRate / 100 * of_int (months d) + cur * mRate / 100 / 30 * of_int (days d)"
  "endingAmount (partialEntry cur mRate d) =
     cur * (1 + mRate / 100 * (of_int (months d) + of_int (days d) / 30))"
  by (simp_all add: partialEntry_def Let_def BS_DAYS_PER_MONTH_def algebra_simps)

lemma compound_Suc: "compound aRate cur (Suc k) = compound aRate cur k * (1 + aRate / 100)"
  by (simp add: compound_def)

lemma compound_0: "compound aRate cur 0 = cur"
  by (simp add: compound_def)

text \<open>
  The breakdown is the yearly rows followed by the partial entry, if any; the unrounded
  final amount is the compounded principal, with the partial interest added, if any.
\<close>

lemma fst_accrue:
  "fst (accrue p rate d) =
     yearRows 1 (nat (years d)) (annualRate rate) p @
     (if months d > 0 \<or> days d > 0
      then [partialEntry (compound (annualRate rate) p (nat (years d))) (monthlyRate rate) d]
      else [])"
  by (simp add: accrue_eq)

lemma snd_accrue:
  "snd (accrue p rate d) =
     (if months d > 0 \<or> days d > 0
      then endingAmount
             (partialEntry (compound (annualRate rate) p (nat (years d))) (monthlyRate rate) d)
      else compound (annualRate rate) p (nat (years d)))"
  by (simp add: accrue_eq)

lemma length_fst_accrue:
  "length (fst (accrue p rate d)) =
     nat (years d) + (if months d > 0 \<or> days d > 0 then 1 else 0)"
  by (simp add: fst_accrue length_yearRows)

lemma fst_accrue_nth_year:
  "i < nat (years d) \<Longrightarrow>
   fst (accrue p rate d) ! i =
     yearEntry (1 + int i) (compound (annualRate rate) p i) (annualRate rate)"
  by (simp add: fst_accrue nth_append length_yearRows yearRows_nth)

lemma fst_accrue_nth_partial:
  "months d > 0 \<or> days d > 0 \<Longrightarrow>
   fst (accrue p rate d) ! nat (years d) =
     partialEntry (compound (annualRate rate) p (nat (years d))) (monthlyRate rate) d"
  by (simp add: fst_accrue nth_append length_yearRows)

lemma fst_accrue_nth_start:
  assumes "i < length (fst (accrue p rate d))"
  shows "startingPrincipal (fst (accrue p rate d) ! i) = compound (annualRate rate) p i"
proof (cases "i < nat (years d)")
  case True
  then show ?thesis by (simp add: fst_accrue_nth_year yearEntry_fields)
next
  case False
  with assms have i: "i = nat (years d)" and t: "months d > 0 \<or> days d > 0"
    by (auto simp: length_fst_accrue split: if_splits)
  show ?thesis
    unfolding i using t by (simp add: fst_accrue_nth_partial partialEntry_fields)
qed

lemma fst_accrue_nth_sum:
  assumes "i < length (fst (accrue p rate d))"
  shows "endingAmount (fst (accrue p rate d) ! i) =
     startingPrincipal (fst (accrue p rate d) ! i) + interest (fst (accrue p rate d) ! i)"
proof (cases "i < nat (years d)")
  case True
  then show ?thesis
    by (simp add: fst_accrue_nth_year yearEntry_def Let_def)
next
  case False
  with assms have i: "i = nat (years d)" and t: "months d > 0 \<or> days d > 0"
    by (auto simp: length_fst_accrue split: if_splits)
  show ?thesis
    unfolding i using t by (simp add: fst_accrue_nth_partial partialEntry_def Let_def)
qed

lemma fst_accrue_nth_end_year:
  "i < nat (years d) \<Longrightarrow>
   endingAmount (fst (accrue p rate d) ! i) = compound (annualRate rate) p (Suc i)"
  by (simp add: fst_accrue_nth_year endingAmount_yearEntry compound_Suc)

text \<open>The unrounded final amount is where the ledger ends.\<close>

lemma snd_accrue_last:
  "snd (accrue p rate d) =
     (if fst (accrue p rate d) = [] then p else endingAmount (last (fst (accrue p rate d))))"
proof (cases "months d > 0 \<or> days d > 0")
  case True
  then show ?thesis by (simp add: fst_accrue snd_accrue)
next
  case False
  show ?thesis
  proof (cases "nat (years d)")
    case 0
    with False show ?thesis by (simp add: fst_accrue snd_accrue compound_0)
  next
    case (Suc k)
    have ne: "fst (accrue p rate d) \<noteq> []"
      using length_fst_accrue[of p rate d] Suc by auto
    have len: "length (fst (accrue p rate d)) = Suc k"
      using False Suc by (simp add: length_fst_accrue)
    have "last (fst (accrue p rate d)) = fst (accrue p rate d) ! k"
      using ne len by (simp add: last_conv_nth)
    moreover have "endingAmount (fst (accrue p rate d) ! k) = compound (annualRate rate) p (Suc k)"
      using Suc by (simp add: fst_accrue_nth_end_year)
    moreover have "snd (accrue p rate d) = compound (annualRate rate) p (Suc k)"
      using False Suc by (simp add: snd_accrue)
    ultimately show ?thesis using ne by simp
  qed
qed

subsection \<open>When the calculation returns\<close>

lemma calculateNepaliInterest_returns:
  assumes "0 < p" "0 \<le> rate" "parseBSDate s = Some sd" "parseBSDate e = Some ed"
    and "\<not> precedes ed sd"
  shows "\<exists>d. dateDifference sd ed = Inr d \<and>
           calculateNepaliInterest p rate s e = Some (Inr (makeResult p rate d))"
proof -
  from dateDifference_Inr[OF assms(5)] obtain d where d: "dateDifference sd ed = Inr d"
    by blast
  then show ?thesis
    using assms by (simp add: calculateNepaliInterest_def calculateBSDateDifference_parsed)
qed

lemma calculateNepaliInterest_returned:
  assumes "calculateNepaliInterest p rate s e = Some (Inr res)"
  shows "0 < p \<and> 0 \<le> rate \<and>
     (\<exists>sd ed d. parseBSDate s = Some sd \<and> parseBSDate e = Some ed \<and>
        dateDifference sd ed = Inr d \<and> res = makeResult p rate d)"
  using assms
  by (auto simp: calculateNepaliInterest_def calculateBSDateDifference_def
      split: if_splits option.splits sum.splits)

lemma makeResult_fields:
  "finalAmount (makeResult p rate d) = round2 (snd (accrue p rate d))"
  "totalInterest (makeResult p rate d) = round2 (snd (accrue p rate d) - p)"
  "timeDuration (makeResult p rate d) = d"
  "breakdown (makeResult p rate d) = fst (accrue p rate d)"
  by (simp_all add: makeResult_def Let_def)

subsection \<open>Rounding\<close>


lemma round2_0: "round2 0 = 0"
proof -
  have "\<lfloor>(1::rat) / 2\<rfloor> = 0" by linarith
  then show ?thesis by (simp add: round2_def Math_round_def)
qed

lemma round2_fixed: "round2 x = x \<longleftrightarrow> x * 100 \<in> \<int>"
proof
  assume "round2 x = x"
  then have "x * 100 = of_int (Math_round (x * 100))"
    by (simp add: round2_def field_simps)
  then show "x * 100 \<in> \<int>"
    by (metis Ints_of_int)
next
  assume "x * 100 \<in> \<int>"
  then obtain k :: int where k: "x * 100 = of_int k"
    by (auto elim: Ints_cases)
  have "Math_round (of_int k :: rat) = k"
    unfolding Math_round_def by linarith
  then show "round2 x = x"
    using k by (simp add: round2_def field_simps)
qed

lemma round2_whole: "round2 x * 100 \<in> \<int>"
  by (simp add: round2_def)

lemma round2_near: "\<bar>round2 x - x\<bar> \<le> 1 / 200"
proof -
  define y where "y = x * 100"
  have "of_int (Math_round y) \<le> y + 1 / 2" and "y + 1 / 2 < of_int (Math_round y) + 1"
    unfolding Math_round_def by linarith+
  then have "\<bar>of_int (Math_round y) - y\<bar> \<le> 1 / 2"
    by linarith
  then have "\<bar>of_int (Math_round y) / 100 - y / 100\<bar> \<le> 1 / 200"
    by (simp add: abs_le_iff field_simps)
  then show ?thesis
    by (simp add: round2_def y_def)
qed


text \<open>
  The returned amount is a whole number of cents within half a cent of the unrounded one.
  The bound is stated with a margin of one part in \<open>10^15\<close> of the amount, the relative
  precision of a double, so that it does not say to which side a half cent goes.
\<close>

lemma round2_cents:
  assumes "0 \<le> x"
  shows "round2 x * 100 \<in> \<int> \<and> \<bar>round2 x - x\<bar> \<le> 1 / 200 + x / 10 ^ 15"
proof -
  have "0 \<le> x / 10 ^ 15"
    using assms by simp
  with round2_near[of x] have "\<bar>round2 x - x\<bar> \<le> 1 / 200 + x / 10 ^ 15"
    by linarith
  then show ?thesis
    by (simp add: round2_whole)
qed

subsection \<open>The worked example\<close>

text \<open>
  C1 (as the code has it). For principal 100000, rate 3, start date 2078-01-01 and end
  date 2080-04-04, \<open>calculateNepaliInterest\<close> returns the duration 2 years, 3 months and
  3 days (the day difference is 4 - 1), the entries Year 1 (interest 36000, ending at
  136000) and Year 2 (interest 48960, ending at 184960), a trailing entry "3 months 3 days"
  with interest 17201.28 (16646.40 for the months and 184.96 * 3 = 554.88 for the days),
  the final amount 202161.28 and the total interest 102161.28. The figures 2 years 3
  months 4 days, 17386.24, 202346.24 and 102346.24 are what it returns for the end date
  2080-04-05.
\<close>

theorem calculateNepaliInterest_example:
  "calculateNepaliInterest 100000 3 ''2078-01-01'' ''2080-04-04'' =
     Some (Inr \<lparr>finalAmount = 202161.28, totalInterest = 102161.28,
       timeDuration = \<lparr>years = 2, months = 3, days = 3\<rparr>,
       breakdown =
         [\<lparr>period = ''Year 1'', startingPrincipal = 100000, interest = 36000,
            endingAmount = 136000\<rparr>,
          \<lparr>period = ''Year 2'', startingPrincipal = 136000, interest = 48960,
            endingAmount = 184960\<rparr>,
          \<lparr>period = ''3 months 3 days'', startingPrincipal = 184960,
            interest = 16646.40 + 184.96 * 3, endingAmount = 202161.28\<rparr>]\<rparr>) \<and>
   calculateNepaliInterest 100000 3 ''2078-01-01'' ''2080-04-05'' =
     Some (Inr \<lparr>finalAmount = 202346.24, totalInterest = 102346.24,
       timeDuration = \<lparr>years = 2, months = 3, days = 4\<rparr>,
       breakdown =
         [\<lparr>period = ''Year 1'', startingPrincipal = 100000, interest = 36000,
            endingAmount = 136000\<rparr>,
          \<lparr>period = ''Year 2'', startingPrincipal = 136000, interest = 48960,
            endingAmount = 184960\<rparr>,
          \<lparr>period = ''3 months 4 days'', startingPrincipal = 184960,
            interest = 16646.40 + 184.96 * 4, endingAmount = 202346.24\<rparr>]\<rparr>)"
  by code_simp

text \<open>
  C1 as stated fails: for the end date 2080-04-04 the returned duration is not 2 years 3
  months 4 days, and the trailing interest, the final amount and the total interest are
  not 17386.24, 202346.24 and 102346.24.
\<close>

theorem calculateNepaliInterest_example_not_4_days:
  "map_option timeDuration
     (returned (calculateNepaliInterest 100000 3 ''2078-01-01'' ''2080-04-04''))
     \<noteq> Some \<lparr>years = 2, months = 3, days = 4\<rparr> \<and>
   map_option (\<lambda>res. interest (last (breakdown res)))
     (returned (calculateNepaliInterest 100000 3 ''2078-01-01'' ''2080-04-04''))
     \<noteq> Some 17386.24 \<and>
   map_option finalAmount
     (returned (calculateNepaliInterest 100000 3 ''2078-01-01'' ''2080-04-04''))
     \<noteq> Some 202346.24 \<and>
   map_option totalInterest
     (returned (calculateNepaliInterest 100000 3 ''2078-01-01'' ''2080-04-04''))
     \<noteq> Some 102346.24"
  by code_simp

subsection \<open>The ordering test and the borrows of the date difference\<close>

text \<open>
  C4. For date strings that \<open>datePattern\<close> accepts, both are parsed, and
  \<open>calculateBSDateDifference\<close> throws "End date must be after start date" if and only
  if the end date strictly precedes the start date in the lexicographic order of (year,
  month, day); otherwise it returns a duration. It throws for start 2080-01-01 and end
  2079-01-01, and it does not throw when the two dates are equal.
\<close>

theorem calculateBSDateDifference_throws_iff:
  "(datePattern_test s \<and> datePattern_test e \<longrightarrow>
      (\<exists>sd ed. parseBSDate s = Some sd \<and> parseBSDate e = Some ed \<and>
         (calculateBSDateDifference s e = Some (Inl (Error ''End date must be after start date''))
            \<longleftrightarrow> precedes ed sd) \<and>
         (\<not> precedes ed sd \<longrightarrow> (\<exists>d. calculateBSDateDifference s e = Some (Inr d))))) \<and>
   calculateBSDateDifference ''2080-01-01'' ''2079-01-01'' =
     Some (Inl (Error ''End date must be after start date'')) \<and>
   (datePattern_test s \<longrightarrow>
      calculateBSDateDifference s s = Some (Inr \<lparr>years = 0, months = 0, days = 0\<rparr>))"
proof (intro conjI impI)
  assume "datePattern_test s \<and> datePattern_test e"
  then obtain sd ed where p: "parseBSDate s = Some sd" "parseBSDate e = Some ed"
    using datePattern_parse by blast
  have "calculateBSDateDifference s e = Some (dateDifference sd ed)"
    using p by (rule calculateBSDateDifference_parsed)
  then have "(calculateBSDateDifference s e =
        Some (Inl (Error ''End date must be after start date'')) \<longleftrightarrow> precedes ed sd) \<and>
      (\<not> precedes ed sd \<longrightarrow> (\<exists>d. calculateBSDateDifference s e = Some (Inr d)))"
    using dateDifference_Inl_iff[of sd ed] dateDifference_Inr[of ed sd] by auto
  with p show "\<exists>sd ed. parseBSDate s = Some sd \<and> parseBSDate e = Some ed \<and>
         (calculateBSDateDifference s e = Some (Inl (Error ''End date must be after start date''))
            \<longleftrightarrow> precedes ed sd) \<and>
         (\<not> precedes ed sd \<longrightarrow> (\<exists>d. calculateBSDateDifference s e = Some (Inr d)))"
    by blast
next
  show "calculateBSDateDifference ''2080-01-01'' ''2079-01-01'' =
     Some (Inl (Error ''End date must be after start date''))"
    by code_simp
next
  assume "datePattern_test s"
  then obtain sd where "parseBSDate s = Some sd"
    using datePattern_parse by blast
  then show "calculateBSDateDifference s s = Some (Inr \<lparr>years = 0, months = 0, days = 0\<rparr>)"
    by (simp add: calculateBSDateDifference_parsed dateDifference_same)
qed

theorem calculateBSDateDifference_throws_iff_witness:
  "datePattern_test ''2079-05-20'' \<and> datePattern_test ''2079-05-19'' \<and>
   parseBSDate ''2079-05-20'' = Some \<lparr>year = 2079, month = 5, day = 20\<rparr> \<and>
   parseBSDate ''2079-05-19'' = Some \<lparr>year = 2079, month = 5, day = 19\<rparr> \<and>
   precedes \<lparr>year = 2079, month = 5, day = 19\<rparr> \<lparr>year = 2079, month = 5, day = 20\<rparr> \<and>
   calculateBSDateDifference ''2079-05-20'' ''2079-05-19'' =
     Some (Inl (Error ''End date must be after start date'')) \<and>
   calculateBSDateDifference ''2079-05-20'' ''2079-05-20'' =
     Some (Inr \<lparr>years = 0, months = 0, days = 0\<rparr>)"
proof -
  have a: "datePattern_test ''2079-05-20''" and b: "datePattern_test ''2079-05-19''"
    by (simp_all add: isDigit_def)
  have c: "parseBSDate ''2079-05-20'' = Some \<lparr>year = 2079, month = 5, day = 20\<rparr>"
    and d: "parseBSDate ''2079-05-19'' = Some \<lparr>year = 2079, month = 5, day = 19\<rparr>"
    by code_simp+
  have e: "precedes \<lparr>year = 2079, month = 5, day = 19\<rparr> \<lparr>year = 2079, month = 5, day = 20\<rparr>"
    by (simp add: precedes_def less_prod_def')
  show ?thesis
    using calculateBSDateDifference_throws_iff[of "''2079-05-20''" "''2079-05-19''"] a b c d e
    by simp
qed

text \<open>
  C5. For two dates with months in 1 to 12 and days in 1 to 30 (any years), the end not
  before the start, the date difference is returned, with months in 0 to 11, days in 0 to
  29 and years at least 0; it is what \<open>calculateBSDateDifference\<close> returns for any two
  strings parsed into these dates.
\<close>

theorem calculateBSDateDifference_normalised:
  assumes "1 \<le> month s" "month s \<le> 12" "1 \<le> day s" "day s \<le> 30"
    and "1 \<le> month e" "month e \<le> 12" "1 \<le> day e" "day e \<le> 30"
    and "\<not> precedes e s"
  shows "\<exists>d. dateDifference s e = Inr d \<and>
           0 \<le> months d \<and> months d \<le> 11 \<and> 0 \<le> days d \<and> days d \<le> 29 \<and> 0 \<le> years d \<and>
           (\<forall>ss es. parseBSDate ss = Some s \<and> parseBSDate es = Some e \<longrightarrow>
              calculateBSDateDifference ss es = Some (Inr d))"
proof -
  from dateDifference_Inr[OF assms(9)] obtain d where d: "dateDifference s e = Inr d"
    by blast
  have "0 \<le> months d \<and> months d \<le> 11 \<and> 0 \<le> days d \<and> days d \<le> 29 \<and> 0 \<le> years d"
    using d assms
    by (auto simp: dateDifference_def precedes_def less_prod_def' Let_def
        BS_DAYS_PER_MONTH_def BS_MONTHS_PER_YEAR_def split: if_splits)
  then show ?thesis
    using d by (auto simp: calculateBSDateDifference_parsed)
qed

theorem calculateBSDateDifference_normalised_witness:
  "\<not> precedes \<lparr>year = 2080, month = 1, day = 5\<rparr> \<lparr>year = 2079, month = 12, day = 30\<rparr> \<and>
   dateDifference \<lparr>year = 2079, month = 12, day = 30\<rparr> \<lparr>year = 2080, month = 1, day = 5\<rparr> =
     Inr \<lparr>years = 0, months = 0, days = 5\<rparr> \<and>
   calculateBSDateDifference ''2079-12-30'' ''2080-01-05'' =
     Some (Inr \<lparr>years = 0, months = 0, days = 5\<rparr>)"
proof -
  have o: "\<not> precedes \<lparr>year = 2080, month = 1, day = 5\<rparr> \<lparr>year = 2079, month = 12, day = 30\<rparr>"
    by (simp add: precedes_def less_prod_def')
  have v: "dateDifference \<lparr>year = 2079, month = 12, day = 30\<rparr> \<lparr>year = 2080, month = 1, day = 5\<rparr> =
     Inr \<lparr>years = 0, months = 0, days = 5\<rparr>"
    by (simp add: dateDifference_def Let_def BS_DAYS_PER_MONTH_def BS_MONTHS_PER_YEAR_def)
  have p: "parseBSDate ''2079-12-30'' = Some \<lparr>year = 2079, month = 12, day = 30\<rparr>"
      "parseBSDate ''2080-01-05'' = Some \<lparr>year = 2080, month = 1, day = 5\<rparr>"
    by code_simp+
  show ?thesis
    using calculateBSDateDifference_normalised[of "\<lparr>year = 2079, month = 12, day = 30\<rparr>"
        "\<lparr>year = 2080, month = 1, day = 5\<rparr>", OF _ _ _ _ _ _ _ _ o] o v p
    by auto
qed

subsection \<open>The guards of the calculation\<close>

text \<open>
  C7. \<open>calculateNepaliInterest\<close> throws "Principal must be greater than 0" if and only if
  the principal is at most 0; for a positive principal it throws "Interest rate cannot be
  negative" if and only if the rate is negative; and for a positive principal, a rate of at
  least 0 and two dates accepted by the date pattern, the end not before the start, it
  returns a result.
\<close>

theorem calculateNepaliInterest_guards:
  "(calculateNepaliInterest p rate s e = Some (Inl (Error ''Principal must be greater than 0''))
      \<longleftrightarrow> p \<le> 0) \<and>
   (0 < p \<longrightarrow>
      (calculateNepaliInterest p rate s e = Some (Inl (Error ''Interest rate cannot be negative''))
         \<longleftrightarrow> rate < 0)) \<and>
   (0 < p \<and> 0 \<le> rate \<and> datePattern_test s \<and> datePattern_test e \<longrightarrow>
      (\<exists>sd ed. parseBSDate s = Some sd \<and> parseBSDate e = Some ed \<and>
         (\<not> precedes ed sd \<longrightarrow> (\<exists>res. calculateNepaliInterest p rate s e = Some (Inr res)))))"
proof (intro conjI impI)
  show "calculateNepaliInterest p rate s e =
      Some (Inl (Error ''Principal must be greater than 0'')) \<longleftrightarrow> p \<le> 0"
    by (auto simp: calculateNepaliInterest_def calculateBSDateDifference_def
        dateDifference_Inl_iff split: option.splits sum.splits)
next
  assume "0 < p"
  then show "calculateNepaliInterest p rate s e =
      Some (Inl (Error ''Interest rate cannot be negative'')) \<longleftrightarrow> rate < 0"
    by (auto simp: calculateNepaliInterest_def calculateBSDateDifference_def
        dateDifference_Inl_iff split: option.splits sum.splits)
next
  assume a: "0 < p \<and> 0 \<le> rate \<and> datePattern_test s \<and> datePattern_test e"
  then obtain sd ed where p: "parseBSDate s = Some sd" "parseBSDate e = Some ed"
    using datePattern_parse by blast
  have "\<not> precedes ed sd \<longrightarrow> (\<exists>res. calculateNepaliInterest p rate s e = Some (Inr res))"
    using calculateNepaliInterest_returns[of p rate s sd e ed] a p by blast
  with p show "\<exists>sd ed. parseBSDate s = Some sd \<and> parseBSDate e = Some ed \<and>
         (\<not> precedes ed sd \<longrightarrow> (\<exists>res. calculateNepaliInterest p rate s e = Some (Inr res)))"
    by blast
qed

theorem calculateNepaliInterest_guards_witness:
  "calculateNepaliInterest 0 5 ''2079-01-01'' ''2080-01-01'' =
     Some (Inl (Error ''Principal must be greater than 0'')) \<and>
   calculateNepaliInterest 5000 (- 1) ''2079-01-01'' ''2080-01-01'' =
     Some (Inl (Error ''Interest rate cannot be negative'')) \<and>
   datePattern_test ''2079-01-01'' \<and> datePattern_test ''2080-01-01'' \<and>
   parseBSDate ''2079-01-01'' = Some \<lparr>year = 2079, month = 1, day = 1\<rparr> \<and>
   parseBSDate ''2080-01-01'' = Some \<lparr>year = 2080, month = 1, day = 1\<rparr> \<and>
   \<not> precedes \<lparr>year = 2080, month = 1, day = 1\<rparr> \<lparr>year = 2079, month = 1, day = 1\<rparr> \<and>
   (\<exists>res. calculateNepaliInterest 5000 12 ''2079-01-01'' ''2080-01-01'' = Some (Inr res))"
proof -
  have a: "datePattern_test ''2079-01-01''" and b: "datePattern_test ''2080-01-01''"
    by (simp_all add: isDigit_def)
  have c: "parseBSDate ''2079-01-01'' = Some \<lparr>year = 2079, month = 1, day = 1\<rparr>"
    and d: "parseBSDate ''2080-01-01'' = Some \<lparr>year = 2080, month = 1, day = 1\<rparr>"
    by code_simp+
  have o: "\<not> precedes \<lparr>year = 2080, month = 1, day = 1\<rparr> \<lparr>year = 2079, month = 1, day = 1\<rparr>"
    by (simp add: precedes_def less_prod_def')
  show ?thesis
    using calculateNepaliInterest_guards[of 0 5 "''2079-01-01''" "''2080-01-01''"]
      calculateNepaliInterest_guards[of 5000 "- 1" "''2079-01-01''" "''2080-01-01''"]
      calculateNepaliInterest_guards[of 5000 12 "''2079-01-01''" "''2080-01-01''"]
      a b c d o
    by simp
qed

subsection \<open>Equal dates\<close>

text \<open>
  C6 (as the code has it). For a principal above 0, a rate of at least 0 and a start date
  equal to the end date (any string the date pattern accepts), the result has the duration
  (0, 0, 0), an empty breakdown and total interest 0. Its final amount is the principal
  rounded to cents: as long as a hundred times the principal is within the range of a
  double, it is a whole number of cents within half a cent of the principal (up to the
  relative precision of a double); and it is the principal itself when the principal is a
  whole number of cents (and at most \<open>10^12\<close>, where a double tells the cents apart).
\<close>

theorem calculateNepaliInterest_equal_dates:
  assumes "0 < p" "0 \<le> rate" "datePattern_test s"
  shows "\<exists>res. calculateNepaliInterest p rate s s = Some (Inr res) \<and>
           timeDuration res = \<lparr>years = 0, months = 0, days = 0\<rparr> \<and>
           breakdown res = [] \<and>
           totalInterest res = 0 \<and>
           (p * 100 \<le> MAX_VALUE \<longrightarrow>
              finalAmount res * 100 \<in> \<int> \<and>
              \<bar>finalAmount res - p\<bar> \<le> 1 / 200 + p / 10 ^ 15) \<and>
           (p * 100 \<in> \<int> \<and> p \<le> 10 ^ 12 \<longrightarrow> finalAmount res = p)"
proof -
  from assms(3) obtain sd where sd: "parseBSDate s = Some sd"
    using datePattern_parse by blast
  have "calculateBSDateDifference s s = Some (Inr \<lparr>years = 0, months = 0, days = 0\<rparr>)"
    using sd by (simp add: calculateBSDateDifference_parsed dateDifference_same)
  then have r: "calculateNepaliInterest p rate s s =
      Some (Inr (makeResult p rate \<lparr>years = 0, months = 0, days = 0\<rparr>))"
    using assms(1,2) by (simp add: calculateNepaliInterest_def)
  have m: "makeResult p rate \<lparr>years = 0, months = 0, days = 0\<rparr> =
      \<lparr>finalAmount = round2 p, totalInterest = 0,
       timeDuration = \<lparr>years = 0, months = 0, days = 0\<rparr>, breakdown = []\<rparr>"
    by (simp add: makeResult_def Let_def fst_accrue snd_accrue compound_0 round2_0)
  have "0 \<le> p"
    using assms(1) by simp
  then have c: "round2 p * 100 \<in> \<int> \<and> \<bar>round2 p - p\<bar> \<le> 1 / 200 + p / 10 ^ 15"
    by (rule round2_cents)
  have f: "p * 100 \<in> \<int> \<longrightarrow> round2 p = p"
    by (simp add: round2_fixed)
  show ?thesis
    unfolding r m using c f by simp
qed

theorem calculateNepaliInterest_equal_dates_witness:
  "datePattern_test ''2080-01-01'' \<and>
   (1234.567::rat) * 100 \<le> MAX_VALUE \<and>
   calculateNepaliInterest 1234.567 3 ''2080-01-01'' ''2080-01-01'' =
     Some (Inr \<lparr>finalAmount = 1234.57, totalInterest = 0,
       timeDuration = \<lparr>years = 0, months = 0, days = 0\<rparr>, breakdown = []\<rparr>) \<and>
   (1234.57::rat) * 100 \<in> \<int> \<and>
   \<bar>1234.57 - 1234.567\<bar> \<le> (1 / 200 + 1234.567 / 10 ^ 15 :: rat) \<and>
   (2500.50::rat) * 100 \<in> \<int> \<and> (2500.50::rat) \<le> 10 ^ 12 \<and>
   calculateNepaliInterest 2500.50 3 ''2080-01-01'' ''2080-01-01'' =
     Some (Inr \<lparr>finalAmount = 2500.50, totalInterest = 0,
       timeDuration = \<lparr>years = 0, months = 0, days = 0\<rparr>, breakdown = []\<rparr>)"
proof -
  have a: "datePattern_test ''2080-01-01''"
    by (simp add: isDigit_def)
  have b: "(1234.567::rat) * 100 \<le> MAX_VALUE"
    by (simp add: MAX_VALUE_def)
  have v: "calculateNepaliInterest 1234.567 3 ''2080-01-01'' ''2080-01-01'' =
     Some (Inr \<lparr>finalAmount = 1234.57, totalInterest = 0,
       timeDuration = \<lparr>years = 0, months = 0, days = 0\<rparr>, breakdown = []\<rparr>)"
    by code_simp
  have w: "calculateNepaliInterest 2500.50 3 ''2080-01-01'' ''2080-01-01'' =
     Some (Inr \<lparr>finalAmount = 2500.50, totalInterest = 0,
       timeDuration = \<lparr>years = 0, months = 0, days = 0\<rparr>, breakdown = []\<rparr>)"
    by code_simp
  have r: "(2500.50::rat) * 100 \<in> \<int>" "(1234.57::rat) * 100 \<in> \<int>"
    by simp_all
  show ?thesis
    using calculateNepaliInterest_equal_dates[of "1234.567" 3 "''2080-01-01''", OF _ _ a]
      calculateNepaliInterest_equal_dates[of "2500.50" 3 "''2080-01-01''", OF _ _ a]
      a b v w r
    by simp
qed

text \<open>
  C6 as stated fails: the principal 1234.567 is valid, and with equal dates the final
  amount is 1234.57, not the principal.
\<close>

theorem calculateNepaliInterest_equal_dates_not_principal:
  "map_option finalAmount
     (returned (calculateNepaliInterest 1234.567 3 ''2080-01-01'' ''2080-01-01''))
     = Some 1234.57 \<and>
   map_option finalAmount
     (returned (calculateNepaliInterest 1234.567 3 ''2080-01-01'' ''2080-01-01''))
     \<noteq> Some 1234.567"
  by code_simp

subsection \<open>One more full year\<close>




lemma snd_accrue_factor:
  "snd (accrue p rate d) =
     compound (annualRate rate) p (nat (years d)) *
     (if months d > 0 \<or> days d > 0
      then 1 + monthlyRate rate / 100 * (of_int (months d) + of_int (days d) / 30)
      else 1)"
  by (simp add: snd_accrue partialEntry_fields)





subsection \<open>Rate 0\<close>

text \<open>
  C10. For rate 0, a principal above 0 and two parsed dates, the end not before the start,
  \<open>calculateNepaliInterest\<close> returns a result whose total interest is 0 and whose entries
  all start and end at the principal, with interest 0. Its final amount is the principal
  rounded to two decimal places: as long as a hundred times the principal is within the
  range of a double, a whole number of cents within half a cent of the principal (up to
  the relative precision of a double).
\<close>

theorem rate_zero_identity:
  assumes "0 < p" "parseBSDate s = Some sd" "parseBSDate e = Some ed" "\<not> precedes ed sd"
  shows "\<exists>res. calculateNepaliInterest p 0 s e = Some (Inr res) \<and>
           totalInterest res = 0 \<and>
           (\<forall>i < length (breakdown res). interest (breakdown res ! i) = 0) \<and>
           (\<forall>i < length (breakdown res).
              startingPrincipal (breakdown res ! i) = p \<and> endingAmount (breakdown res ! i) = p) \<and>
           (p * 100 \<le> MAX_VALUE \<longrightarrow>
              finalAmount res * 100 \<in> \<int> \<and>
              \<bar>finalAmount res - p\<bar> \<le> 1 / 200 + p / 10 ^ 15)"
proof -
  from calculateNepaliInterest_returns[OF assms(1) _ assms(2,3,4), of 0]
  obtain d where r: "calculateNepaliInterest p 0 s e = Some (Inr (makeResult p 0 d))"
    by auto
  have a0: "annualRate 0 = 0" and m0: "monthlyRate 0 = 0"
    by (simp_all add: annualRate_def monthlyRate_def isMonthlyRate_def)
  have c: "compound 0 p k = p" for k
    by (simp add: compound_def)
  have fin: "snd (accrue p 0 d) = p"
    by (simp add: snd_accrue_factor a0 m0 c)
  have i0: "interest (fst (accrue p 0 d) ! i) = 0" if "i < length (fst (accrue p 0 d))" for i
  proof (cases "i < nat (years d)")
    case True
    then show ?thesis
      by (simp add: fst_accrue_nth_year yearEntry_fields a0)
  next
    case False
    with that have i: "i = nat (years d)" and t: "months d > 0 \<or> days d > 0"
      by (auto simp: length_fst_accrue split: if_splits)
    show ?thesis
      unfolding i using t by (simp add: fst_accrue_nth_partial partialEntry_fields m0)
  qed
  have s0: "startingPrincipal (fst (accrue p 0 d) ! i) = p"
    if "i < length (fst (accrue p 0 d))" for i
    using that by (simp add: fst_accrue_nth_start a0 c)
  have e0: "endingAmount (fst (accrue p 0 d) ! i) = p"
    if "i < length (fst (accrue p 0 d))" for i
    using that by (simp add: fst_accrue_nth_sum s0 i0)
  have "0 \<le> p"
    using assms(1) by simp
  then have rc: "round2 p * 100 \<in> \<int> \<and> \<bar>round2 p - p\<bar> \<le> 1 / 200 + p / 10 ^ 15"
    by (rule round2_cents)
  show ?thesis
    using r fin i0 s0 e0 rc by (simp add: makeResult_fields round2_0)
qed

theorem rate_zero_identity_witness:
  "parseBSDate ''2078-01-01'' = Some \<lparr>year = 2078, month = 1, day = 1\<rparr> \<and>
   parseBSDate ''2080-04-04'' = Some \<lparr>year = 2080, month = 4, day = 4\<rparr> \<and>
   \<not> precedes \<lparr>year = 2080, month = 4, day = 4\<rparr> \<lparr>year = 2078, month = 1, day = 1\<rparr> \<and>
   (1234.567::rat) * 100 \<le> MAX_VALUE \<and>
   calculateNepaliInterest 1234.567 0 ''2078-01-01'' ''2080-04-04'' =
     Some (Inr \<lparr>finalAmount = 1234.57, totalInterest = 0,
       timeDuration = \<lparr>years = 2, months = 3, days = 3\<rparr>,
       breakdown =
         [\<lparr>period = ''Year 1'', startingPrincipal = 1234.567, interest = 0,
            endingAmount = 1234.567\<rparr>,
          \<lparr>period = ''Year 2'', startingPrincipal = 1234.567, interest = 0,
            endingAmount = 1234.567\<rparr>,
          \<lparr>period = ''3 months 3 days'', startingPrincipal = 1234.567, interest = 0,
            endingAmount = 1234.567\<rparr>]\<rparr>) \<and>
   (1234.57::rat) * 100 \<in> \<int> \<and>
   \<bar>1234.57 - 1234.567\<bar> \<le> (1 / 200 + 1234.567 / 10 ^ 15 :: rat)"
proof -
  have c: "parseBSDate ''2078-01-01'' = Some \<lparr>year = 2078, month = 1, day = 1\<rparr>"
    and d: "parseBSDate ''2080-04-04'' = Some \<lparr>year = 2080, month = 4, day = 4\<rparr>"
    by code_simp+
  have o: "\<not> precedes \<lparr>year = 2080, month = 4, day = 4\<rparr> \<lparr>year = 2078, month = 1, day = 1\<rparr>"
    by (simp add: precedes_def less_prod_def')
  have b: "(1234.567::rat) * 100 \<le> MAX_VALUE"
    by (simp add: MAX_VALUE_def)
  have v: "calculateNepaliInterest 1234.567 0 ''2078-01-01'' ''2080-04-04'' =
     Some (Inr \<lparr>finalAmount = 1234.57, totalInterest = 0,
       timeDuration = \<lparr>years = 2, months = 3, days = 3\<rparr>,
       breakdown =
         [\<lparr>period = ''Year 1'', startingPrincipal = 1234.567, interest = 0,
            endingAmount = 1234.567\<rparr>,
          \<lparr>period = ''Year 2'', startingPrincipal = 1234.567, interest = 0,
            endingAmount = 1234.567\<rparr>,
          \<lparr>period = ''3 months 3 days'', startingPrincipal = 1234.567, interest = 0,
            endingAmount = 1234.567\<rparr>]\<rparr>)"
    by code_simp
  have w: "(1234.57::rat) * 100 \<in> \<int>"
    by simp
  from rate_zero_identity[OF _ c d o, of "1234.567"] have
    "\<exists>res. calculateNepaliInterest 1234.567 0 ''2078-01-01'' ''2080-04-04'' = Some (Inr res)"
    by auto
  then show ?thesis
    using c d o b v w by simp
qed

subsection \<open>The ledger is consistent\<close>

text \<open>
  C9. Whenever \<open>calculateNepaliInterest\<close> returns a result: every entry ends at its
  starting principal plus its interest; the first entry starts at the input principal;
  each later entry starts where the one before it ends; and the unrounded final amount
  (the current principal after the last block, before line 162 rounds it) is the last
  entry's ending amount, or the principal when the breakdown is empty. The breakdown has
  one entry per full year of the duration, labelled "Year 1" to "Year N" in order,
  followed by one more entry, the partial one, exactly when the duration has months or
  days above 0.
\<close>

theorem breakdown_consistent:
  assumes "calculateNepaliInterest p rate s e = Some (Inr res)"
  shows "(\<forall>i < length (breakdown res).
            endingAmount (breakdown res ! i) =
              startingPrincipal (breakdown res ! i) + interest (breakdown res ! i)) \<and>
         (breakdown res \<noteq> [] \<longrightarrow> startingPrincipal (breakdown res ! 0) = p) \<and>
         (\<forall>i. Suc i < length (breakdown res) \<longrightarrow>
            startingPrincipal (breakdown res ! Suc i) = endingAmount (breakdown res ! i)) \<and>
         snd (accrue p rate (timeDuration res)) =
           (if breakdown res = [] then p else endingAmount (last (breakdown res))) \<and>
         breakdown res = fst (accrue p rate (timeDuration res)) \<and>
         0 \<le> years (timeDuration res) \<and>
         length (breakdown res) =
           nat (years (timeDuration res)) +
           (if months (timeDuration res) > 0 \<or> days (timeDuration res) > 0 then 1 else 0) \<and>
         (\<forall>i < nat (years (timeDuration res)).
            period (breakdown res ! i) = ''Year '' @ toString (int i + 1)) \<and>
         (months (timeDuration res) > 0 \<or> days (timeDuration res) > 0 \<longrightarrow>
            last (breakdown res) =
              partialEntry (startingPrincipal (last (breakdown res))) (monthlyRate rate)
                (timeDuration res))"
proof -
  from calculateNepaliInterest_returned[OF assms] obtain sd ed d where
    dd: "dateDifference sd ed = Inr d" and res: "res = makeResult p rate d"
    by blast
  let ?bd = "fst (accrue p rate d)"
  have bd: "breakdown res = ?bd" and du: "timeDuration res = d"
    by (simp_all add: res makeResult_fields)
  have c1: "\<forall>i < length ?bd.
      endingAmount (?bd ! i) = startingPrincipal (?bd ! i) + interest (?bd ! i)"
    by (simp add: fst_accrue_nth_sum)
  have c2: "?bd \<noteq> [] \<longrightarrow> startingPrincipal (?bd ! 0) = p"
    by (simp add: fst_accrue_nth_start compound_0)
  have c3: "\<forall>i. Suc i < length ?bd \<longrightarrow> startingPrincipal (?bd ! Suc i) = endingAmount (?bd ! i)"
  proof (intro allI impI)
    fix i assume i: "Suc i < length ?bd"
    then have "i < nat (years d)"
      by (auto simp: length_fst_accrue split: if_splits)
    then have "endingAmount (?bd ! i) = compound (annualRate rate) p (Suc i)"
      by (rule fst_accrue_nth_end_year)
    moreover have "startingPrincipal (?bd ! Suc i) = compound (annualRate rate) p (Suc i)"
      using i by (rule fst_accrue_nth_start)
    ultimately show "startingPrincipal (?bd ! Suc i) = endingAmount (?bd ! i)"
      by simp
  qed
  have c4: "snd (accrue p rate d) = (if ?bd = [] then p else endingAmount (last ?bd))"
    by (rule snd_accrue_last)
  have c6: "0 \<le> years d"
    using dd by (rule dateDifference_years_nonneg)
  have c7: "length ?bd = nat (years d) + (if months d > 0 \<or> days d > 0 then 1 else 0)"
    by (rule length_fst_accrue)
  have c8: "\<forall>i < nat (years d). period (?bd ! i) = ''Year '' @ toString (int i + 1)"
    by (simp add: fst_accrue_nth_year yearEntry_fields add.commute)
  have c9: "months d > 0 \<or> days d > 0 \<longrightarrow>
      last ?bd = partialEntry (startingPrincipal (last ?bd)) (monthlyRate rate) d"
    by (simp add: fst_accrue partialEntry_fields)
  show ?thesis
    unfolding bd du using c1 c2 c3 c4 c6 c7 c8 c9 by blast
qed

theorem breakdown_consistent_witness:
  "calculateNepaliInterest 100000 3 ''2078-01-01'' ''2079-01-11'' =
     Some (Inr \<lparr>finalAmount = 137360, totalInterest = 37360,
       timeDuration = \<lparr>years = 1, months = 0, days = 10\<rparr>,
       breakdown =
         [\<lparr>period = ''Year 1'', startingPrincipal = 100000, interest = 36000,
            endingAmount = 136000\<rparr>,
          \<lparr>period = ''10 days'', startingPrincipal = 136000, interest = 1360,
            endingAmount = 137360\<rparr>]\<rparr>) \<and>
   toString 1 = ''1'' \<and>
   partialEntry 136000 (monthlyRate 3) \<lparr>years = 1, months = 0, days = 10\<rparr> =
     \<lparr>period = ''10 days'', startingPrincipal = 136000, interest = 1360,
      endingAmount = 137360\<rparr> \<and>
   accrue 100000 3 \<lparr>years = 1, months = 0, days = 10\<rparr> =
     ([\<lparr>period = ''Year 1'', startingPrincipal = 100000, interest = 36000,
         endingAmount = 136000\<rparr>,
       \<lparr>period = ''10 days'', startingPrincipal = 136000, interest = 1360,
         endingAmount = 137360\<rparr>], 137360)"
proof -
  have v: "calculateNepaliInterest 100000 3 ''2078-01-01'' ''2079-01-11'' =
     Some (Inr \<lparr>finalAmount = 137360, totalInterest = 37360,
       timeDuration = \<lparr>years = 1, months = 0, days = 10\<rparr>,
       breakdown =
         [\<lparr>period = ''Year 1'', startingPrincipal = 100000, interest = 36000,
            endingAmount = 136000\<rparr>,
          \<lparr>period = ''10 days'', startingPrincipal = 136000, interest = 1360,
            endingAmount = 137360\<rparr>]\<rparr>)"
    by code_simp
  have t: "toString 1 = ''1''"
    by code_simp
  have a: "accrue 100000 3 \<lparr>years = 1, months = 0, days = 10\<rparr> =
     ([\<lparr>period = ''Year 1'', startingPrincipal = 100000, interest = 36000,
         endingAmount = 136000\<rparr>,
       \<lparr>period = ''10 days'', startingPrincipal = 136000, interest = 1360,
         endingAmount = 137360\<rparr>], 137360)"
    by code_simp
  show ?thesis
    using breakdown_consistent[OF v] v t a by simp
qed

subsection \<open>The rate threshold\<close>

text \<open>
  C2. A rate below 10 is the monthly rate, and the annual rate is twelve times it; a rate
  of 10 or more is the annual rate, and the monthly rate is a twelfth of it. So rate 9.999
  gives the annual rate 119.988 and rate 10 the annual rate 10. These are the rates that
  \<open>calculateNepaliInterest\<close> applies: whenever it returns, each yearly entry's interest is
  its starting principal times the annual rate over 100, and the partial entry's interest
  is the monthly interest (starting principal times the monthly rate over 100) times the
  months, plus a thirtieth of the monthly interest times the days.
\<close>

theorem rate_interpretation:
  "(rate < 10 \<longrightarrow> monthlyRate rate = rate \<and> annualRate rate = rate * 12) \<and>
   (10 \<le> rate \<longrightarrow> annualRate rate = rate \<and> monthlyRate rate = rate / 12) \<and>
   annualRate 9.999 = 119.988 \<and> annualRate 10 = 10 \<and>
   (calculateNepaliInterest p rate s e = Some (Inr res) \<longrightarrow>
      (\<forall>i < nat (years (timeDuration res)).
         interest (breakdown res ! i) =
           startingPrincipal (breakdown res ! i) * (if rate < 10 then rate * 12 else rate) / 100) \<and>
      (months (timeDuration res) > 0 \<or> days (timeDuration res) > 0 \<longrightarrow>
         interest (last (breakdown res)) =
           startingPrincipal (last (breakdown res)) * (if rate < 10 then rate else rate / 12) / 100
             * of_int (months (timeDuration res)) +
           startingPrincipal (last (breakdown res)) * (if rate < 10 then rate else rate / 12) / 100
             / 30 * of_int (days (timeDuration res))))"
proof (intro conjI impI)
  assume "calculateNepaliInterest p rate s e = Some (Inr res)"
  from calculateNepaliInterest_returned[OF this] obtain d where
    res: "res = makeResult p rate d"
    by blast
  have a: "annualRate rate = (if rate < 10 then rate * 12 else rate)"
    and m: "monthlyRate rate = (if rate < 10 then rate else rate / 12)"
    by (simp_all add: annualRate_def monthlyRate_def isMonthlyRate_def)
  show "\<forall>i < nat (years (timeDuration res)).
         interest (breakdown res ! i) =
           startingPrincipal (breakdown res ! i) * (if rate < 10 then rate * 12 else rate) / 100"
    unfolding a[symmetric]
    by (simp add: res makeResult_fields fst_accrue_nth_year yearEntry_fields)
  assume "months (timeDuration res) > 0 \<or> days (timeDuration res) > 0"
  then have t: "months d > 0 \<or> days d > 0"
    by (simp add: res makeResult_fields)
  show "interest (last (breakdown res)) =
           startingPrincipal (last (breakdown res)) * (if rate < 10 then rate else rate / 12) / 100
             * of_int (months (timeDuration res)) +
           startingPrincipal (last (breakdown res)) * (if rate < 10 then rate else rate / 12) / 100
             / 30 * of_int (days (timeDuration res))"
    unfolding m[symmetric] using t
    by (simp add: res makeResult_fields fst_accrue partialEntry_fields)
qed (simp_all add: annualRate_def monthlyRate_def isMonthlyRate_def)

theorem rate_interpretation_witness:
  "monthlyRate 9.999 = 9.999 \<and> annualRate 9.999 = 119.988 \<and>
   annualRate 10 = 10 \<and> monthlyRate 12 = 1 \<and>
   calculateNepaliInterest 100000 12 ''2078-01-01'' ''2079-03-01'' =
     Some (Inr \<lparr>finalAmount = 114240, totalInterest = 14240,
       timeDuration = \<lparr>years = 1, months = 2, days = 0\<rparr>,
       breakdown =
         [\<lparr>period = ''Year 1'', startingPrincipal = 100000, interest = 100000 * 12 / 100,
            endingAmount = 112000\<rparr>,
          \<lparr>period = ''2 months'', startingPrincipal = 112000,
            interest = 112000 * (12 / 12) / 100 * 2, endingAmount = 114240\<rparr>]\<rparr>)"
proof -
  have v: "calculateNepaliInterest 100000 12 ''2078-01-01'' ''2079-03-01'' =
     Some (Inr \<lparr>finalAmount = 114240, totalInterest = 14240,
       timeDuration = \<lparr>years = 1, months = 2, days = 0\<rparr>,
       breakdown =
         [\<lparr>period = ''Year 1'', startingPrincipal = 100000, interest = 100000 * 12 / 100,
            endingAmount = 112000\<rparr>,
          \<lparr>period = ''2 months'', startingPrincipal = 112000,
            interest = 112000 * (12 / 12) / 100 * 2, endingAmount = 114240\<rparr>]\<rparr>)"
    by code_simp
  show ?thesis
    using rate_interpretation[of "9.999" 100000 "''2078-01-01''" "''2079-03-01''"]
      rate_interpretation[of 12 100000 "''2078-01-01''" "''2079-03-01''", OF] v
    by simp
qed

subsection \<open>A failed calculation\<close>

text \<open>
  Within the model \<open>handleCalculate\<close> always yields a next state: a date string reaches
  \<open>parseBSDate\<close> only after the pattern test.
\<close>

lemma tryCalculate_Some: "\<exists>r. tryCalculate parseFloat inp = Some r"
proof -
  have "\<exists>r. calculateNepaliInterest p rate (startDate inp) (endDate inp) = Some r"
    if "datePattern_test (startDate inp)" "datePattern_test (endDate inp)" for p rate
  proof -
    from that obtain sd ed where
      "parseBSDate (startDate inp) = Some sd" "parseBSDate (endDate inp) = Some ed"
      using datePattern_parse by blast
    then show ?thesis
      by (auto simp: calculateNepaliInterest_def calculateBSDateDifference_parsed
          split: sum.splits)
  qed
  then show ?thesis
    by (auto simp: tryCalculate_def split: option.splits)
qed

lemma handleCalculate_Some: "\<exists>st'. handleCalculate parseFloat st = Some st'"
  using tryCalculate_Some[of parseFloat "inputs st"]
  by (auto simp: handleCalculate_def split: sum.splits exn.splits)

lemma handleCalculate_throw:
  "tryCalculate parseFloat (inputs st) = Some (Inl (Error msg)) \<Longrightarrow>
   handleCalculate parseFloat st = Some (st\<lparr>error := msg, result := None\<rparr>)"
  by (simp add: handleCalculate_def)

lemma tryCalculate_principal:
  "parseFloat (principal inp) = None \<or> (parseFloat (principal inp) = Some p \<and> p \<le> 0) \<Longrightarrow>
   tryCalculate parseFloat inp =
     Some (Inl (Error ''Please enter a valid principal amount greater than 0''))"
  by (auto simp: tryCalculate_def)

lemma tryCalculate_rate:
  "parseFloat (principal inp) = Some p \<Longrightarrow> 0 < p \<Longrightarrow>
   parseFloat (interestRate inp) = None \<or> (parseFloat (interestRate inp) = Some r \<and> r < 0) \<Longrightarrow>
   tryCalculate parseFloat inp =
     Some (Inl (Error ''Please enter a valid interest rate (0 or greater)''))"
  by (auto simp: tryCalculate_def)

lemma tryCalculate_format:
  "parseFloat (principal inp) = Some p \<Longrightarrow> 0 < p \<Longrightarrow>
   parseFloat (interestRate inp) = Some r \<Longrightarrow> 0 \<le> r \<Longrightarrow>
   \<not> datePattern_test (startDate inp) \<or> \<not> datePattern_test (endDate inp) \<Longrightarrow>
   tryCalculate parseFloat inp =
     Some (Inl (Error ''Please enter dates in YYYY-MM-DD format (BS calendar)''))"
  by (auto simp: tryCalculate_def)

lemma tryCalculate_order:
  assumes "parseFloat (principal inp) = Some p" "0 < p"
    and "parseFloat (interestRate inp) = Some r" "0 \<le> r"
    and "datePattern_test (startDate inp)" "datePattern_test (endDate inp)"
    and "parseBSDate (startDate inp) = Some sd" "parseBSDate (endDate inp) = Some ed"
    and "precedes ed sd"
  shows "tryCalculate parseFloat inp = Some (Inl (Error ''End date must be after start date''))"
proof -
  have "dateDifference sd ed = Inl (Error ''End date must be after start date'')"
    using assms(9) by (simp add: dateDifference_Inl_iff)
  then have "calculateNepaliInterest p r (startDate inp) (endDate inp) =
      Some (Inl (Error ''End date must be after start date''))"
    using assms(2,4,7,8)
    by (simp add: calculateNepaliInterest_def calculateBSDateDifference_parsed)
  then show ?thesis
    using assms(1-6) by (simp add: tryCalculate_def)
qed

text \<open>
  C3 (as the code has it). When a calculation attempt fails validation, the \<open>catch\<close>
  block stores the message of the failure and sets the stored result to null, whatever it
  was before; the inputs are unchanged. The message is that of the first check that fails:
  the principal is not a number or is at most 0; else the rate is not a number or is
  negative; else a date does not match the pattern; else the end date precedes the start
  date. In general the stored message is the one that the body of the \<open>try\<close> block throws.
\<close>

theorem handleCalculate_failure_clears_result:
  "(tryCalculate parseFloat (inputs st) = Some (Inl (Error msg)) \<longrightarrow>
      handleCalculate parseFloat st = Some (st\<lparr>error := msg, result := None\<rparr>)) \<and>
   (parseFloat (principal (inputs st)) = None \<or>
    (parseFloat (principal (inputs st)) = Some p \<and> p \<le> 0) \<longrightarrow>
      handleCalculate parseFloat st =
        Some (st\<lparr>error := ''Please enter a valid principal amount greater than 0'',
                 result := None\<rparr>)) \<and>
   (parseFloat (principal (inputs st)) = Some p \<and> 0 < p \<and>
    (parseFloat (interestRate (inputs st)) = None \<or>
     (parseFloat (interestRate (inputs st)) = Some r \<and> r < 0)) \<longrightarrow>
      handleCalculate parseFloat st =
        Some (st\<lparr>error := ''Please enter a valid interest rate (0 or greater)'',
                 result := None\<rparr>)) \<and>
   (parseFloat (principal (inputs st)) = Some p \<and> 0 < p \<and>
    parseFloat (interestRate (inputs st)) = Some r \<and> 0 \<le> r \<and>
    (\<not> datePattern_test (startDate (inputs st)) \<or> \<not> datePattern_test (endDate (inputs st))) \<longrightarrow>
      handleCalculate parseFloat st =
        Some (st\<lparr>error := ''Please enter dates in YYYY-MM-DD format (BS calendar)'',
                 result := None\<rparr>)) \<and>
   (parseFloat (principal (inputs st)) = Some p \<and> 0 < p \<and>
    parseFloat (interestRate (inputs st)) = Some r \<and> 0 \<le> r \<and>
    datePattern_test (startDate (inputs st)) \<and> datePattern_test (endDate (inputs st)) \<and>
    parseBSDate (startDate (inputs st)) = Some sd \<and>
    parseBSDate (endDate (inputs st)) = Some ed \<and> precedes ed sd \<longrightarrow>
      handleCalculate parseFloat st =
        Some (st\<lparr>error := ''End date must be after start date'', result := None\<rparr>))"
proof (intro conjI impI)
  assume "tryCalculate parseFloat (inputs st) = Some (Inl (Error msg))"
  then show "handleCalculate parseFloat st = Some (st\<lparr>error := msg, result := None\<rparr>)"
    by (rule handleCalculate_throw)
next
  assume "parseFloat (principal (inputs st)) = None \<or>
    (parseFloat (principal (inputs st)) = Some p \<and> p \<le> 0)"
  then show "handleCalculate parseFloat st =
        Some (st\<lparr>error := ''Please enter a valid principal amount greater than 0'',
                 result := None\<rparr>)"
    by (intro handleCalculate_throw tryCalculate_principal)
next
  assume "parseFloat (principal (inputs st)) = Some p \<and> 0 < p \<and>
    (parseFloat (interestRate (inputs st)) = None \<or>
     (parseFloat (interestRate (inputs st)) = Some r \<and> r < 0))"
  then show "handleCalculate parseFloat st =
        Some (st\<lparr>error := ''Please enter a valid interest rate (0 or greater)'',
                 result := None\<rparr>)"
    by (intro handleCalculate_throw tryCalculate_rate[where p = p and r = r]) simp_all
next
  assume "parseFloat (principal (inputs st)) = Some p \<and> 0 < p \<and>
    parseFloat (interestRate (inputs st)) = Some r \<and> 0 \<le> r \<and>
    (\<not> datePattern_test (startDate (inputs st)) \<or> \<not> datePattern_test (endDate (inputs st)))"
  then show "handleCalculate parseFloat st =
        Some (st\<lparr>error := ''Please enter dates in YYYY-MM-DD format (BS calendar)'',
                 result := None\<rparr>)"
    by (intro handleCalculate_throw tryCalculate_format[where p = p and r = r]) simp_all
next
  assume "parseFloat (principal (inputs st)) = Some p \<and> 0 < p \<and>
    parseFloat (interestRate (inputs st)) = Some r \<and> 0 \<le> r \<and>
    datePattern_test (startDate (inputs st)) \<and> datePattern_test (endDate (inputs st)) \<and>
    parseBSDate (startDate (inputs st)) = Some sd \<and>
    parseBSDate (endDate (inputs st)) = Some ed \<and> precedes ed sd"
  then show "handleCalculate parseFloat st =
        Some (st\<lparr>error := ''End date must be after start date'', result := None\<rparr>)"
    by (intro handleCalculate_throw tryCalculate_order[where p = p and r = r and sd = sd and ed = ed]) simp_all
qed

theorem handleCalculate_failure_clears_result_witness:
  "result shownState \<noteq> None \<and>
   parseFloat_digits ''100000'' = Some 100000 \<and> parseFloat_digits ''3'' = Some 3 \<and>
   \<not> datePattern_test ''2080/01/01'' \<and>
   handleCalculate parseFloat_digits (handleInputChange StartDate ''2080/01/01'' shownState) =
     Some \<lparr>inputs = defaultInputs\<lparr>startDate := ''2080/01/01''\<rparr>, result = None,
           error = ''Please enter dates in YYYY-MM-DD format (BS calendar)''\<rparr> \<and>
   datePattern_test ''2078-01-01'' \<and> datePattern_test ''2077-12-30'' \<and>
   parseBSDate ''2078-01-01'' = Some \<lparr>year = 2078, month = 1, day = 1\<rparr> \<and>
   parseBSDate ''2077-12-30'' = Some \<lparr>year = 2077, month = 12, day = 30\<rparr> \<and>
   precedes \<lparr>year = 2077, month = 12, day = 30\<rparr> \<lparr>year = 2078, month = 1, day = 1\<rparr> \<and>
   handleCalculate parseFloat_digits (handleInputChange EndDate ''2077-12-30'' shownState) =
     Some \<lparr>inputs = defaultInputs\<lparr>endDate := ''2077-12-30''\<rparr>, result = None,
           error = ''End date must be after start date''\<rparr>"
proof -
  let ?s1 = "handleInputChange StartDate ''2080/01/01'' shownState"
  let ?s2 = "handleInputChange EndDate ''2077-12-30'' shownState"
  have i1: "inputs ?s1 = defaultInputs\<lparr>startDate := ''2080/01/01''\<rparr>"
    and i2: "inputs ?s2 = defaultInputs\<lparr>endDate := ''2077-12-30''\<rparr>"
    by (simp_all add: handleInputChange_def shownState_def)
  have u1: "?s1\<lparr>error := ''Please enter dates in YYYY-MM-DD format (BS calendar)'',
        result := None\<rparr> =
      \<lparr>inputs = defaultInputs\<lparr>startDate := ''2080/01/01''\<rparr>, result = None,
       error = ''Please enter dates in YYYY-MM-DD format (BS calendar)''\<rparr>"
    and u2: "?s2\<lparr>error := ''End date must be after start date'', result := None\<rparr> =
      \<lparr>inputs = defaultInputs\<lparr>endDate := ''2077-12-30''\<rparr>, result = None,
       error = ''End date must be after start date''\<rparr>"
    by (simp_all add: handleInputChange_def shownState_def)
  have pp: "parseFloat_digits ''100000'' = Some 100000" and pr: "parseFloat_digits ''3'' = Some 3"
    by code_simp+
  have a: "\<not> datePattern_test ''2080/01/01''"
    and b: "datePattern_test ''2078-01-01''" and c: "datePattern_test ''2077-12-30''"
    and b': "datePattern_test ''2080-04-04''"
    by (simp_all add: isDigit_def)
  have d: "parseBSDate ''2078-01-01'' = Some \<lparr>year = 2078, month = 1, day = 1\<rparr>"
    and e: "parseBSDate ''2077-12-30'' = Some \<lparr>year = 2077, month = 12, day = 30\<rparr>"
    by code_simp+
  have o: "precedes \<lparr>year = 2077, month = 12, day = 30\<rparr> \<lparr>year = 2078, month = 1, day = 1\<rparr>"
    by (simp add: precedes_def less_prod_def')
  have n: "result shownState \<noteq> None"
    by (simp add: shownState_def)
  have t1: "handleCalculate parseFloat_digits ?s1 =
      Some (?s1\<lparr>error := ''Please enter dates in YYYY-MM-DD format (BS calendar)'',
        result := None\<rparr>)"
    using handleCalculate_failure_clears_result[where parseFloat = parseFloat_digits
        and st = ?s1 and p = 100000 and r = 3] pp pr a
    by (simp add: i1 defaultInputs_def)
  have t2: "handleCalculate parseFloat_digits ?s2 =
      Some (?s2\<lparr>error := ''End date must be after start date'', result := None\<rparr>)"
    using handleCalculate_failure_clears_result[where parseFloat = parseFloat_digits
        and st = ?s2 and p = 100000 and r = 3
        and sd = "\<lparr>year = 2078, month = 1, day = 1\<rparr>"
        and ed = "\<lparr>year = 2077, month = 12, day = 30\<rparr>"] pp pr b c d e o
    by (simp add: i2 defaultInputs_def)
  show ?thesis
    using t1 t2 n pp pr a b c d e o unfolding u1 u2 by simp
qed

text \<open>
  C3 as stated fails. From the initial state one click on the calculate button shows a
  result; the user then types the principal 0; the next click stores null as the result:
  the result that was displayed is not left unchanged.
\<close>

theorem handleCalculate_failure_loses_result:
  "handleCalculate parseFloat_digits initialState = Some shownState \<and>
   result shownState \<noteq> None \<and>
   result (handleInputChange Principal ''0'' shownState) = result shownState \<and>
   map_option result
     (handleCalculate parseFloat_digits (handleInputChange Principal ''0'' shownState)) =
     Some None \<and>
   map_option error
     (handleCalculate parseFloat_digits (handleInputChange Principal ''0'' shownState)) =
     Some ''Please enter a valid principal amount greater than 0''"
  by code_simp

end
